theory Spec2Isabelle
  imports Main
begin

text \<open>
  The repository holds two wrapper classes: \<open>EmailAgent\<close> (SMTP and IMAP through smtplib
  and imaplib) and \<open>MessagingAgent\<close> (SMS and WhatsApp through the Twilio SDK). Each
  public method is modelled as a function of the wrapper object, the arguments and the
  answers of the library it calls; the libraries' answers are parameters, fixed for the
  duration of one call. \<open>asyncio.to_thread\<close> hands the helper's result or exception back to
  the awaiting method, so the model calls the helper directly.
\<close>

section \<open>Python values shared by both wrappers\<close>

text \<open>
  A Python \<open>str\<close> is the list of its characters and a \<open>bytes\<close> value the list of its
  bytes; both are written as \<open>string\<close>, one \<open>char\<close> per character (no encoding is
  involved, so \<open>length\<close> and \<open>take\<close> count what Python's \<open>len\<close> and slices count).
  A value that may be \<open>None\<close> is an \<open>option\<close>.

  Exceptions are values. \<open>ValueError\<close>, \<open>IndexError\<close> and \<open>AttributeError\<close> are the ones
  the wrappers' own expressions raise (\<open>int(...)\<close>, \<open>messages[0]\<close>, a method of \<open>None\<close>, a
  field never assigned); \<open>LibraryError\<close> is any exception (a subclass of \<open>Exception\<close>)
  raised inside smtplib, imaplib, the email package or the Twilio SDK.
\<close>

datatype exn = ValueError | IndexError | AttributeError | LibraryError string

text \<open>Truth value of a \<open>str\<close> or \<open>None\<close>: \<open>None\<close> and the empty string are false.\<close>

definition truthy :: "string option \<Rightarrow> bool" where
  "truthy v = (case v of None \<Rightarrow> False | Some s \<Rightarrow> s \<noteq> [])"

text \<open>\<open>os.environ\<close> after \<open>load_dotenv()\<close>, and the two forms of \<open>os.getenv\<close>.\<close>

type_synonym environ = "string \<Rightarrow> string option"

definition getenv :: "environ \<Rightarrow> string \<Rightarrow> string option" where
  "getenv env key = env key"

definition getenv_default :: "environ \<Rightarrow> string \<Rightarrow> string \<Rightarrow> string" where
  "getenv_default env key dflt = (case env key of None \<Rightarrow> dflt | Some v \<Rightarrow> v)"

text \<open>
  \<open>int(s)\<close> for a \<open>str\<close>, base 10, as CPython parses it: white space around the literal is
  skipped (for characters below 256: tab, line feed, vertical tab, form feed, carriage
  return, space, U+0085 and U+00A0), one sign may follow, then decimal digits in which
  single underscores may stand between two digits. Anything else raises \<open>ValueError\<close>, and
  so does a literal of more than 4300 digits (\<open>sys.get_int_max_str_digits()\<close>).
\<close>

definition int_space :: "char \<Rightarrow> bool" where
  "int_space c = ((of_char c :: nat) \<in> set [9, 10, 11, 12, 13, 32, 133, 160])"

definition digit_of :: "char \<Rightarrow> nat option" where
  "digit_of c = (let n = (of_char c :: nat) in if 48 \<le> n \<and> n \<le> 57 then Some (n - 48) else None)"

text \<open>
  The digit scan keeps the previous character, the value so far and the number of digits:
  two underscores in a row and a trailing underscore are refused.
\<close>

fun scan_digits :: "string \<Rightarrow> char option \<Rightarrow> nat \<Rightarrow> nat \<Rightarrow> (nat \<times> nat) option" where
  "scan_digits [] prev v n = (if prev = Some (CHR ''_'') then None else Some (v, n))"
| "scan_digits (c # cs) prev v n =
     (if c = CHR ''_'' then
        (if prev = Some (CHR ''_'') then None else scan_digits cs (Some c) v n)
      else
        (case digit_of c of
           None \<Rightarrow> None
         | Some d \<Rightarrow> scan_digits cs (Some c) (10 * v + d) (Suc n)))"

definition py_int :: "string \<Rightarrow> int option" where
  "py_int s =
     (let t = dropWhile int_space s;
          neg = (case t of [] \<Rightarrow> False | c # _ \<Rightarrow> c = CHR ''-'');
          u = (case t of [] \<Rightarrow> [] | c # r \<Rightarrow> if c = CHR ''+'' \<or> c = CHR ''-'' then r else t);
          d = rev (dropWhile int_space (rev u))
      in case d of
           [] \<Rightarrow> None
         | c # _ \<Rightarrow>
            if c = CHR ''_'' then None
            else (case scan_digits d None 0 0 of
                    None \<Rightarrow> None
                  | Some (v, n) \<Rightarrow>
                     if n = 0 \<or> 4300 < n then None
                     else Some (if neg then - int v else int v)))"

text \<open>\<open>xs[start:]\<close>: a negative start counts from the end and is clipped at 0, a start past the end gives the empty list.\<close>

definition slice_from :: "'a list \<Rightarrow> int \<Rightarrow> 'a list" where
  "slice_from xs start =
     (let n = int (length xs);
          s = (if start < 0 then max 0 (start + n) else min start n)
      in drop (nat s) xs)"

text \<open>\<open>b.split()\<close> of a bytes value: the maximal runs of bytes that are not ASCII white space.\<close>

definition bytes_space :: "char \<Rightarrow> bool" where
  "bytes_space c = ((of_char c :: nat) \<in> set [9, 10, 11, 12, 13, 32])"

fun split_ws :: "string \<Rightarrow> string \<Rightarrow> string list" where
  "split_ws cur [] = (if cur = [] then [] else [cur])"
| "split_ws cur (c # cs) =
     (if bytes_space c then (if cur = [] then split_ws [] cs else cur # split_ws [] cs)
      else split_ws (cur @ [c]) cs)"

definition bytes_split :: "string \<Rightarrow> string list" where
  "bytes_split b = split_ws [] b"

section \<open>What an operation does besides returning\<close>

text \<open>
  Every call into smtplib, imaplib or the Twilio client is recorded with its arguments, and
  every line printed to the console; \<open>Print_exc p e\<close> is the line \<open>print(f"p{e}")\<close> for a
  caught exception \<open>e\<close>. A public operation yields an \<open>outcome\<close>: the wrapper object after
  the call, the value returned to the caller, and the events in the order they happened.
\<close>

record MIMEMultipart =
  headers :: "(string \<times> string option) list"
  attached :: "(string \<times> string) list"

datatype call =
    SMTP_connect string int
  | SMTP_starttls
  | SMTP_login "string option" "string option"
  | SMTP_send_message MIMEMultipart
  | SMTP_exit
  | IMAP_connect string int
  | IMAP_login "string option" "string option"
  | IMAP_select string
  | IMAP_search string
  | IMAP_fetch string string
  | IMAP_close
  | IMAP_logout
  | Twilio_create string "string option" string
  | Twilio_list int

datatype event = Print string | Print_exc string exn | Call call

definition calls_of :: "event list \<Rightarrow> call list" where
  "calls_of evs = concat (map (\<lambda>ev. case ev of Call c \<Rightarrow> [c] | Print s \<Rightarrow> [] | Print_exc s e \<Rightarrow> []) evs)"

record ('s, 'r) outcome =
  self_after :: 's
  returned :: 'r
  events :: "event list"

section \<open>The email wrapper (email\_agent\_example.py)\<close>

record EmailAgent =
  smtp_server :: string
  smtp_port :: int
  email_address :: "string option"
  email_password :: "string option"

text \<open>
  \<open>EmailAgent.__init__\<close>. \<open>int(os.getenv("SMTP_PORT", "587"))\<close> is evaluated before the
  credentials are read, and its \<open>ValueError\<close> leaves the constructor.
\<close>

definition EmailAgent_init :: "environ \<Rightarrow> exn + (EmailAgent \<times> event list)" where
  "EmailAgent_init env =
     (case py_int (getenv_default env ''SMTP_PORT'' ''587'') of
        None \<Rightarrow> Inl ValueError
      | Some port \<Rightarrow>
         (let self = \<lparr>smtp_server = getenv_default env ''SMTP_SERVER'' ''smtp.gmail.com'',
                      smtp_port = port,
                      email_address = getenv env ''EMAIL_ADDRESS'',
                      email_password = getenv env ''EMAIL_PASSWORD''\<rparr>
          in if \<not> truthy (email_address self) \<or> \<not> truthy (email_password self)
             then Inr (self, [Print ''[EMAIL] Warning: Email credentials not set in .env file''])
             else Inr (self, [])))"

text \<open>
  The wrapper has no flag of its own for the unconfigured state: every operation repeats the
  test \<open>not self.email_address or not self.email_password\<close>.
\<close>

definition email_unconfigured :: "EmailAgent \<Rightarrow> bool" where
  "email_unconfigured self = (\<not> truthy (email_address self) \<or> \<not> truthy (email_password self))"

subsection \<open>Sending\<close>

text \<open>
  The SMTP server as one send sees it: for each step of \<open>_send_sync\<close>, whether it raises.
  \<open>smtp_exit\<close> is \<open>SMTP.__exit__\<close>, which sends QUIT when the \<open>with\<close> block is left.
\<close>

record smtp_world =
  smtp_connect :: "string \<Rightarrow> int \<Rightarrow> exn option"
  smtp_starttls :: "exn option"
  smtp_login :: "string option \<Rightarrow> string option \<Rightarrow> exn option"
  smtp_send_message :: "MIMEMultipart \<Rightarrow> exn option"
  smtp_exit :: "exn option"

text \<open>The body of the \<open>with\<close> block of \<open>_send_sync\<close>: the exception it ends with, and its calls.\<close>

definition send_sync_body :: "smtp_world \<Rightarrow> EmailAgent \<Rightarrow> MIMEMultipart \<Rightarrow> exn option \<times> event list" where
  "send_sync_body w self msg =
     (case smtp_starttls w of
        Some e \<Rightarrow> (Some e, [Call SMTP_starttls])
      | None \<Rightarrow>
         (case smtp_login w (email_address self) (email_password self) of
            Some e \<Rightarrow>
              (Some e, [Call SMTP_starttls,
                        Call (SMTP_login (email_address self) (email_password self))])
          | None \<Rightarrow>
              (smtp_send_message w msg,
               [Call SMTP_starttls,
                Call (SMTP_login (email_address self) (email_password self)),
                Call (SMTP_send_message msg)])))"

text \<open>
  \<open>_send_sync\<close>. When the constructor \<open>smtplib.SMTP(...)\<close> raises, the block is never
  entered. Otherwise \<open>__exit__\<close> runs however the block ended; an exception of its own
  replaces the block's.
\<close>

definition send_sync :: "smtp_world \<Rightarrow> EmailAgent \<Rightarrow> MIMEMultipart \<Rightarrow> string \<Rightarrow> exn option \<times> event list" where
  "send_sync w self msg to =
     (case smtp_connect w (smtp_server self) (smtp_port self) of
        Some e \<Rightarrow> (Some e, [Call (SMTP_connect (smtp_server self) (smtp_port self))])
      | None \<Rightarrow>
         (case send_sync_body w self msg of
            (r, evs) \<Rightarrow>
              ((case smtp_exit w of Some e \<Rightarrow> Some e | None \<Rightarrow> r),
               Call (SMTP_connect (smtp_server self) (smtp_port self)) # evs @ [Call SMTP_exit])))"

text \<open>The message \<open>send_email\<close> builds: three headers and the body attached as plain text or HTML.\<close>

definition build_message :: "EmailAgent \<Rightarrow> string \<Rightarrow> string \<Rightarrow> string \<Rightarrow> bool \<Rightarrow> MIMEMultipart" where
  "build_message self to subject body is_html =
     \<lparr>headers = [(''From'', email_address self), (''To'', Some to), (''Subject'', Some subject)],
      attached = [(if is_html then ''html'' else ''plain'', body)]\<rparr>"

definition send_email ::
  "smtp_world \<Rightarrow> EmailAgent \<Rightarrow> string \<Rightarrow> string \<Rightarrow> string \<Rightarrow> bool \<Rightarrow> (EmailAgent, bool) outcome" where
  "send_email w self to subject body is_html =
     (if \<not> truthy (email_address self) \<or> \<not> truthy (email_password self) then
        \<lparr>self_after = self, returned = False,
         events = [Print ''[EMAIL] Error: Email credentials not configured'']\<rparr>
      else
        (case send_sync w self (build_message self to subject body is_html) to of
           (None, evs) \<Rightarrow>
             \<lparr>self_after = self, returned = True,
              events = evs @ [Print (''[EMAIL] Successfully sent email to '' @ to)]\<rparr>
         | (Some e, evs) \<Rightarrow>
             \<lparr>self_after = self, returned = False,
              events = evs @ [Print_exc ''[EMAIL] Error sending email: '' e]\<rparr>))"

subsection \<open>Reading\<close>

text \<open>
  A parsed message (\<open>email.message.Message\<close>) is seen through the methods the wrapper
  calls. Its MIME structure is a tree: a part that is not multipart carries its content
  type and the outcome of \<open>get_payload(decode=True).decode()\<close> (the text, or the
  exception the decoding raises); a multipart part carries its content type and its
  sub-parts.
\<close>

datatype mime_part =
    Leaf string "exn + string"
  | Multipart string "mime_part list"

fun get_content_type :: "mime_part \<Rightarrow> string" where
  "get_content_type (Leaf ct payload) = ct"
| "get_content_type (Multipart ct parts) = ct"

fun is_multipart :: "mime_part \<Rightarrow> bool" where
  "is_multipart (Leaf ct payload) = False"
| "is_multipart (Multipart ct parts) = True"

text \<open>\<open>Message.walk()\<close>: the part itself, then its sub-parts in depth-first order.\<close>

fun walk :: "mime_part \<Rightarrow> mime_part list" where
  "walk (Leaf ct payload) = [Leaf ct payload]"
| "walk (Multipart ct parts) = Multipart ct parts # concat (map walk parts)"

text \<open>
  \<open>part.get_payload(decode=True).decode()\<close>: for a multipart part \<open>get_payload(decode=True)\<close>
  is \<open>None\<close>, and \<open>None.decode()\<close> raises \<open>AttributeError\<close>.
\<close>

fun payload_decode :: "mime_part \<Rightarrow> exn + string" where
  "payload_decode (Leaf ct payload) = payload"
| "payload_decode (Multipart ct parts) = Inl AttributeError"

text \<open>
  \<open>decode_header(msg["Subject"])[0][0]\<close> is a \<open>str\<close>, or a \<open>bytes\<close> value that the wrapper
  decodes (\<open>Bytes_chunk\<close> carries the outcome of \<open>.decode()\<close>); the expression raises when
  the message has no Subject header.
\<close>

datatype header_chunk = Str_chunk string | Bytes_chunk "exn + string"

record email_message =
  subject_chunk :: "exn + header_chunk"
  from_header :: "string option"
  date_header :: "string option"
  mime :: mime_part

text \<open>One entry of the returned list: the dict with the keys from, subject, body and date.\<close>

record email_summary =
  e_from :: "string option"
  e_subject :: string
  e_body :: string
  e_date :: "string option"

text \<open>The loop \<open>for part in msg.walk()\<close>: the first text/plain part is decoded and ends the loop.\<close>

fun walk_loop :: "mime_part list \<Rightarrow> exn + string" where
  "walk_loop [] = Inr []"
| "walk_loop (part # rest) =
     (if get_content_type part = ''text/plain'' then payload_decode part else walk_loop rest)"

definition get_body :: "mime_part \<Rightarrow> exn + string" where
  "get_body msg = (if is_multipart msg then walk_loop (walk msg) else payload_decode msg)"

text \<open>
  The lines 145 to 169 of the source, run for one parsed message: the summary appended to
  \<open>emails\<close>, or the exception raised on the way. \<open>body[:500]\<close> is \<open>take 500 body\<close>.
\<close>

definition summarise :: "email_message \<Rightarrow> exn + email_summary" where
  "summarise msg =
     (case subject_chunk msg of
        Inl e \<Rightarrow> Inl e
      | Inr chunk \<Rightarrow>
         (case (case chunk of Str_chunk s \<Rightarrow> Inr s | Bytes_chunk decoded \<Rightarrow> decoded) of
            Inl e \<Rightarrow> Inl e
          | Inr subject \<Rightarrow>
             (case get_body (mime msg) of
                Inl e \<Rightarrow> Inl e
              | Inr body \<Rightarrow>
                 Inr \<lparr>e_from = from_header msg, e_subject = subject,
                      e_body = take 500 body, e_date = date_header msg\<rparr>)))"

text \<open>
  The IMAP server and the email parser as one read sees them. \<open>imap_search\<close> is the second
  component of \<open>mail.search(None, "ALL")\<close>; an item of a fetch response is a pair whose
  second component is the raw message, or an item that is no tuple (bytes or \<open>None\<close>).
\<close>

datatype response_part = Tuple string string | Bare "string option"

record imap_world =
  imap_connect :: "string \<Rightarrow> int \<Rightarrow> exn option"
  imap_login :: "string option \<Rightarrow> string option \<Rightarrow> exn option"
  imap_select :: "string \<Rightarrow> exn option"
  imap_search :: "exn + string option list"
  imap_fetch :: "string \<Rightarrow> exn + response_part list"
  imap_close :: "exn option"
  imap_logout :: "exn option"
  message_from_bytes :: "string \<Rightarrow> email_message"

text \<open>\<open>messages[0].split()\<close>.\<close>

definition first_split :: "string option list \<Rightarrow> exn + string list" where
  "first_split messages =
     (case messages of
        [] \<Rightarrow> Inl IndexError
      | None # _ \<Rightarrow> Inl AttributeError
      | Some b # _ \<Rightarrow> Inr (bytes_split b))"

text \<open>The loop \<open>for response_part in msg_data\<close>, from the list \<open>emails\<close> built so far.\<close>

fun parts_loop :: "imap_world \<Rightarrow> response_part list \<Rightarrow> email_summary list \<Rightarrow> exn option \<times> email_summary list" where
  "parts_loop w [] emails = (None, emails)"
| "parts_loop w (Bare b # rest) emails = parts_loop w rest emails"
| "parts_loop w (Tuple envelope raw # rest) emails =
     (case summarise (message_from_bytes w raw) of
        Inl e \<Rightarrow> (Some e, emails)
      | Inr s \<Rightarrow> parts_loop w rest (emails @ [s]))"

text \<open>The loop \<open>for email_id in email_ids[-limit:]\<close>.\<close>

fun ids_loop :: "imap_world \<Rightarrow> string list \<Rightarrow> email_summary list \<Rightarrow> exn option \<times> email_summary list \<times> event list" where
  "ids_loop w [] emails = (None, emails, [])"
| "ids_loop w (email_id # rest) emails =
     (case imap_fetch w email_id of
        Inl e \<Rightarrow> (Some e, emails, [Call (IMAP_fetch email_id ''(RFC822)'')])
      | Inr msg_data \<Rightarrow>
         (case parts_loop w msg_data emails of
            (Some e, emails') \<Rightarrow> (Some e, emails', [Call (IMAP_fetch email_id ''(RFC822)'')])
          | (None, emails') \<Rightarrow>
             (case ids_loop w rest emails' of
                (r, emails'', evs) \<Rightarrow> (r, emails'', Call (IMAP_fetch email_id ''(RFC822)'') # evs))))"

text \<open>
  The \<open>try\<close> block of \<open>_read_emails_sync\<close>: the exception that ended it (if any), the list
  \<open>emails\<close> at that moment, and the calls made.
\<close>

definition read_emails_try ::
  "imap_world \<Rightarrow> EmailAgent \<Rightarrow> string \<Rightarrow> int \<Rightarrow> int \<Rightarrow> exn option \<times> email_summary list \<times> event list" where
  "read_emails_try w self imap_server imap_port limit =
     (let c1 = [Call (IMAP_connect imap_server imap_port)];
          c2 = c1 @ [Call (IMAP_login (email_address self) (email_password self))];
          c3 = c2 @ [Call (IMAP_select ''inbox'')];
          c4 = c3 @ [Call (IMAP_search ''ALL'')]
      in case imap_connect w imap_server imap_port of
           Some e \<Rightarrow> (Some e, [], c1)
         | None \<Rightarrow>
        (case imap_login w (email_address self) (email_password self) of
           Some e \<Rightarrow> (Some e, [], c2)
         | None \<Rightarrow>
        (case imap_select w ''inbox'' of
           Some e \<Rightarrow> (Some e, [], c3)
         | None \<Rightarrow>
        (case imap_search w of
           Inl e \<Rightarrow> (Some e, [], c4)
         | Inr messages \<Rightarrow>
        (case first_split messages of
           Inl e \<Rightarrow> (Some e, [], c4)
         | Inr email_ids \<Rightarrow>
        (case ids_loop w (slice_from email_ids (- limit)) [] of
           (Some e, emails, evs) \<Rightarrow> (Some e, emails, c4 @ evs)
         | (None, emails, evs) \<Rightarrow>
        (case imap_close w of
           Some e \<Rightarrow> (Some e, emails, c4 @ evs @ [Call IMAP_close])
         | None \<Rightarrow>
             (imap_logout w, emails, c4 @ evs @ [Call IMAP_close, Call IMAP_logout]))))))))"

text \<open>\<open>_read_emails_sync\<close>: the handler prints, and \<open>emails\<close> is returned either way.\<close>

definition read_emails_sync ::
  "imap_world \<Rightarrow> EmailAgent \<Rightarrow> string \<Rightarrow> int \<Rightarrow> int \<Rightarrow> email_summary list \<times> event list" where
  "read_emails_sync w self imap_server imap_port limit =
     (case read_emails_try w self imap_server imap_port limit of
        (None, emails, evs) \<Rightarrow> (emails, evs)
      | (Some e, emails, evs) \<Rightarrow> (emails, evs @ [Print_exc ''[EMAIL] IMAP error: '' e]))"

text \<open>
  \<open>read_emails\<close>. The IMAP host and port are read from the environment inside the \<open>try\<close>,
  before the credentials are tested; a port that is no integer ends in the handler.
\<close>

definition read_emails ::
  "environ \<Rightarrow> imap_world \<Rightarrow> EmailAgent \<Rightarrow> int \<Rightarrow> (EmailAgent, email_summary list) outcome" where
  "read_emails env w self limit =
     (let imap_server = getenv_default env ''IMAP_SERVER'' ''imap.gmail.com''
      in case py_int (getenv_default env ''IMAP_PORT'' ''993'') of
           None \<Rightarrow>
             \<lparr>self_after = self, returned = [],
              events = [Print_exc ''[EMAIL] Error reading emails: '' ValueError]\<rparr>
         | Some imap_port \<Rightarrow>
             if \<not> truthy (email_address self) \<or> \<not> truthy (email_password self) then
               \<lparr>self_after = self, returned = [],
                events = [Print ''[EMAIL] Error: Email credentials not configured'']\<rparr>
             else
               (case read_emails_sync w self imap_server imap_port limit of
                  (emails, evs) \<Rightarrow> \<lparr>self_after = self, returned = emails, events = evs\<rparr>))"

section \<open>The messaging wrapper (messaging\_agent\_example.py)\<close>

text \<open>
  A message object of the Twilio SDK, by the attributes the wrapper reads; \<open>tw_date_sent\<close>
  is \<open>str(msg.date_sent)\<close>. The client is seen through its two methods:
  \<open>messages.create(body=..., from_=..., to=...)\<close> (the arguments in this order) and
  \<open>messages.list(limit=...)\<close>, each of which raises or returns.
\<close>

record twilio_message =
  tw_sid :: "string option"
  tw_from :: "string option"
  tw_to :: "string option"
  tw_body :: "string option"
  tw_date_sent :: string
  tw_status :: "string option"

record twilio_client =
  messages_create :: "string \<Rightarrow> string option \<Rightarrow> string \<Rightarrow> exn + twilio_message option"
  messages_list :: "int \<Rightarrow> exn + twilio_message list"

text \<open>
  A field of the object that \<open>__init__\<close> may leave unassigned: reading it then raises
  \<open>AttributeError\<close>.
\<close>

datatype 'a attr = Unassigned | Assigned 'a

record MessagingAgent =
  client :: "twilio_client option"
  from_number :: "string option attr"

text \<open>
  \<open>MessagingAgent.__init__\<close>, from the module's flag \<open>TWILIO_AVAILABLE\<close>, the SDK's
  constructor \<open>TwilioClient\<close> and the environment. Without the SDK the constructor returns
  before \<open>from_number\<close> is assigned.
\<close>

definition MessagingAgent_init ::
  "bool \<Rightarrow> (string option \<Rightarrow> string option \<Rightarrow> twilio_client) \<Rightarrow> environ \<Rightarrow> MessagingAgent \<times> event list" where
  "MessagingAgent_init TWILIO_AVAILABLE TwilioClient env =
     (if \<not> TWILIO_AVAILABLE then
        (\<lparr>client = None, from_number = Unassigned\<rparr>, [Print ''[MESSAGING] Twilio not available''])
      else
        (let account_sid = getenv env ''TWILIO_ACCOUNT_SID'';
             auth_token = getenv env ''TWILIO_AUTH_TOKEN'';
             number = getenv env ''TWILIO_PHONE_NUMBER''
         in if truthy account_sid \<and> truthy auth_token then
              (\<lparr>client = Some (TwilioClient account_sid auth_token), from_number = Assigned number\<rparr>,
               [Print ''[MESSAGING] Twilio client initialized''])
            else
              (\<lparr>client = None, from_number = Assigned number\<rparr>,
               [Print ''[MESSAGING] Warning: Twilio credentials not set in .env''])))"

text \<open>One entry of the list \<open>get_messages\<close> returns: the dict with the keys from, to, body, date and status.\<close>

record message_summary =
  m_from :: "string option"
  m_to :: "string option"
  m_body :: "string option"
  m_date :: string
  m_status :: "string option"

text \<open>
  \<open>_send_sms_sync\<close> and \<open>_send_whatsapp_sync\<close>: the provider call, which may raise. A
  missing client makes \<open>self.client.messages\<close> raise, a field never assigned makes
  \<open>self.from_number\<close> raise.
\<close>

definition send_sms_sync ::
  "MessagingAgent \<Rightarrow> string \<Rightarrow> string \<Rightarrow> (exn + twilio_message option) \<times> event list" where
  "send_sms_sync self to message =
     (case client self of
        None \<Rightarrow> (Inl AttributeError, [])
      | Some c \<Rightarrow>
         (case from_number self of
            Unassigned \<Rightarrow> (Inl AttributeError, [])
          | Assigned number \<Rightarrow>
              (messages_create c message number to, [Call (Twilio_create message number to)])))"

definition send_whatsapp_sync ::
  "MessagingAgent \<Rightarrow> string \<Rightarrow> string \<Rightarrow> string option \<Rightarrow> (exn + twilio_message option) \<times> event list" where
  "send_whatsapp_sync self to message from' =
     (case client self of
        None \<Rightarrow> (Inl AttributeError, [])
      | Some c \<Rightarrow> (messages_create c message from' to, [Call (Twilio_create message from' to)]))"

text \<open>
  The test \<open>msg and msg.sid\<close> on what the provider returned: the sid when the test holds
  (a message object with a sid that is neither \<open>None\<close> nor empty).
\<close>

definition msg_and_sid :: "twilio_message option \<Rightarrow> string option" where
  "msg_and_sid msg =
     (case msg of
        None \<Rightarrow> None
      | Some m \<Rightarrow> (if truthy (tw_sid m) then tw_sid m else None))"

definition send_sms :: "MessagingAgent \<Rightarrow> string \<Rightarrow> string \<Rightarrow> (MessagingAgent, exn + bool) outcome" where
  "send_sms self to message =
     (if client self = None then
        \<lparr>self_after = self, returned = Inr False,
         events = [Print ''[MESSAGING] Error: Twilio client not initialized'']\<rparr>
      else
        (case from_number self of
           Unassigned \<Rightarrow> \<lparr>self_after = self, returned = Inl AttributeError, events = []\<rparr>
         | Assigned number \<Rightarrow>
            if \<not> truthy number then
              \<lparr>self_after = self, returned = Inr False,
               events = [Print ''[MESSAGING] Error: TWILIO_PHONE_NUMBER not set'']\<rparr>
            else
              (case send_sms_sync self to message of
                 (Inl e, evs) \<Rightarrow>
                   \<lparr>self_after = self, returned = Inr False,
                    events = evs @ [Print_exc ''[MESSAGING] Error sending SMS: '' e]\<rparr>
               | (Inr msg, evs) \<Rightarrow>
                   (case msg_and_sid msg of
                      Some sid \<Rightarrow>
                        \<lparr>self_after = self, returned = Inr True,
                         events = evs @ [Print (''[MESSAGING] SMS sent to '' @ to @ '' (SID: '' @ sid @ 
                                                '')'')]\<rparr>
                    | None \<Rightarrow>
                        \<lparr>self_after = self, returned = Inr False,
                         events = evs @ [Print (''[MESSAGING] Failed to send SMS to '' @ to)]\<rparr>))))"

definition send_whatsapp :: "MessagingAgent \<Rightarrow> string \<Rightarrow> string \<Rightarrow> (MessagingAgent, exn + bool) outcome" where
  "send_whatsapp self to message =
     (if client self = None then
        \<lparr>self_after = self, returned = Inr False,
         events = [Print ''[MESSAGING] Error: Twilio client not initialized'']\<rparr>
      else
        (case from_number self of
           Unassigned \<Rightarrow> \<lparr>self_after = self, returned = Inl AttributeError, events = []\<rparr>
         | Assigned number \<Rightarrow>
            (let whatsapp_from = (if truthy number then map_option (\<lambda>n. ''whatsapp:'' @ n) number else None);
                 whatsapp_to = ''whatsapp:'' @ to
             in if \<not> truthy whatsapp_from then
                  \<lparr>self_after = self, returned = Inr False,
                   events = [Print ''[MESSAGING] Error: TWILIO_PHONE_NUMBER not set'']\<rparr>
                else
                  (case send_whatsapp_sync self whatsapp_to message whatsapp_from of
                     (Inl e, evs) \<Rightarrow>
                       \<lparr>self_after = self, returned = Inr False,
                        events = evs @ [Print_exc ''[MESSAGING] Error sending WhatsApp: '' e]\<rparr>
                   | (Inr msg, evs) \<Rightarrow>
                       (case msg_and_sid msg of
                          Some sid \<Rightarrow>
                            \<lparr>self_after = self, returned = Inr True,
                             events = evs @ [Print (''[MESSAGING] WhatsApp sent to '' @ to @ '' (SID: '' @ sid @
                                                    '')'')]\<rparr>
                        | None \<Rightarrow>
                            \<lparr>self_after = self, returned = Inr False,
                             events = evs @ [Print (''[MESSAGING] Failed to send WhatsApp to '' @ to)]\<rparr>)))))"

text \<open>The dict built for one message of the provider's list.\<close>

definition summary_of :: "twilio_message \<Rightarrow> message_summary" where
  "summary_of msg =
     \<lparr>m_from = tw_from msg, m_to = tw_to msg, m_body = tw_body msg,
      m_date = tw_date_sent msg, m_status = tw_status msg\<rparr>"

text \<open>
  \<open>_get_messages_sync\<close>: the list call is inside the \<open>try\<close>; when it raises nothing has been
  appended yet. The loop over the provider's messages only reads their attributes.
\<close>

definition get_messages_sync :: "MessagingAgent \<Rightarrow> int \<Rightarrow> message_summary list \<times> event list" where
  "get_messages_sync self limit =
     (case client self of
        None \<Rightarrow> ([], [Print_exc ''[MESSAGING] Error retrieving messages: '' AttributeError])
      | Some c \<Rightarrow>
         (case messages_list c limit of
            Inl e \<Rightarrow>
              ([], [Call (Twilio_list limit),
                    Print_exc ''[MESSAGING] Error retrieving messages: '' e])
          | Inr twilio_messages \<Rightarrow> (map summary_of twilio_messages, [Call (Twilio_list limit)])))"

definition get_messages :: "MessagingAgent \<Rightarrow> int \<Rightarrow> (MessagingAgent, message_summary list) outcome" where
  "get_messages self limit =
     (if client self = None then
        \<lparr>self_after = self, returned = [],
         events = [Print ''[MESSAGING] Error: Twilio client not initialized'']\<rparr>
      else
        (case get_messages_sync self limit of
           (messages, evs) \<Rightarrow> \<lparr>self_after = self, returned = messages, events = evs\<rparr>))"

section \<open>The result of a read, stated without the loops\<close>

text \<open>
  What a read attempts, in order: for each identifier the failed fetch, or else what
  \<open>summarise\<close> yields for each tuple of the response. The loops stop at the first
  failure, so the list returned holds the summaries that precede it.
\<close>

fun tuple_attempts :: "imap_world \<Rightarrow> response_part list \<Rightarrow> (exn + email_summary) list" where
  "tuple_attempts w [] = []"
| "tuple_attempts w (Bare b # rest) = tuple_attempts w rest"
| "tuple_attempts w (Tuple envelope raw # rest) =
     summarise (message_from_bytes w raw) # tuple_attempts w rest"

fun attempts :: "imap_world \<Rightarrow> string list \<Rightarrow> (exn + email_summary) list" where
  "attempts w [] = []"
| "attempts w (email_id # rest) =
     (case imap_fetch w email_id of
        Inl e \<Rightarrow> [Inl e]
      | Inr msg_data \<Rightarrow> tuple_attempts w msg_data) @ attempts w rest"

fun successes :: "(exn + 'a) list \<Rightarrow> 'a list" where
  "successes [] = []"
| "successes (Inl e # rest) = []"
| "successes (Inr s # rest) = s # successes rest"

fun first_failure :: "(exn + 'a) list \<Rightarrow> exn option" where
  "first_failure [] = None"
| "first_failure (Inl e # rest) = Some e"
| "first_failure (Inr s # rest) = first_failure rest"

section \<open>Concrete inputs\<close>

text \<open>A configured wrapper, and an SMTP server on which every step succeeds.\<close>

definition agent0 :: EmailAgent where
  "agent0 = \<lparr>smtp_server = ''smtp.gmail.com'', smtp_port = 587,
             email_address = Some ''me@example.com'', email_password = Some ''secret''\<rparr>"

definition smtp_ok :: smtp_world where
  "smtp_ok = \<lparr>smtp_connect = (\<lambda>host port. None), smtp_starttls = None,
              smtp_login = (\<lambda>user password. None), smtp_send_message = (\<lambda>msg. None),
              smtp_exit = None\<rparr>"

text \<open>
  A mailbox with the two messages 1 and 2. The first is plain text; the second is
  multipart with an HTML part only.
\<close>

definition message1 :: email_message where
  "message1 = \<lparr>subject_chunk = Inr (Str_chunk ''first''), from_header = Some ''a@example.com'',
               date_header = Some ''Mon, 1 Jan 2024'',
               mime = Leaf ''text/plain'' (Inr ''hello'')\<rparr>"

definition message2 :: email_message where
  "message2 = \<lparr>subject_chunk = Inr (Str_chunk ''second''), from_header = Some ''b@example.com'',
               date_header = None,
               mime = Multipart ''multipart/alternative'' [Leaf ''text/html'' (Inr ''<p>hi</p>'')]\<rparr>"

definition mailbox :: imap_world where
  "mailbox =
     \<lparr>imap_connect = (\<lambda>host port. None),
      imap_login = (\<lambda>user password. None),
      imap_select = (\<lambda>name. None),
      imap_search = Inr [Some ''1 2''],
      imap_fetch = (\<lambda>email_id.
         if email_id = ''1'' then Inr [Tuple ''1 (RFC822 {5}'' ''raw1'', Bare (Some '')'')]
         else if email_id = ''2'' then Inr [Tuple ''2 (RFC822 {9}'' ''raw2'', Bare (Some '')'')]
         else Inl (LibraryError ''FETCH command error'')),
      imap_close = None,
      imap_logout = None,
      message_from_bytes = (\<lambda>raw. if raw = ''raw1'' then message1 else message2)\<rparr>"

text \<open>The same mailbox whose second message has no Subject header, and one whose server fails on CLOSE.\<close>

definition mailbox_bad_subject :: imap_world where
  "mailbox_bad_subject =
     mailbox\<lparr>message_from_bytes := (\<lambda>raw.
        if raw = ''raw1'' then message1
        else message2\<lparr>subject_chunk := Inl (LibraryError ''TypeError'')\<rparr>)\<rparr>"

definition mailbox_bad_close :: imap_world where
  "mailbox_bad_close = mailbox\<lparr>imap_close := Some (LibraryError ''CLOSE failed'')\<rparr>"

text \<open>
  A Twilio client that accepts every message and lists one message; the messaging wrapper
  built with account id and secret set but no sender number, the one built without the
  SDK, and one with client and sender number.
\<close>

definition message0 :: twilio_message where
  "message0 = \<lparr>tw_sid = Some ''SM1'', tw_from = Some ''+15550000000'', tw_to = Some ''+15551234567'',
               tw_body = Some ''hi'', tw_date_sent = ''2024-01-01 00:00:00+00:00'',
               tw_status = Some ''received''\<rparr>"

definition client0 :: twilio_client where
  "client0 = \<lparr>messages_create = (\<lambda>body from' to. Inr (Some message0)),
              messages_list = (\<lambda>limit. Inr [message0])\<rparr>"

definition env_no_number :: environ where
  "env_no_number = [''TWILIO_ACCOUNT_SID'' \<mapsto> ''AC1'', ''TWILIO_AUTH_TOKEN'' \<mapsto> ''token'']"

definition env_bad_port :: environ where
  "env_bad_port = [''SMTP_PORT'' \<mapsto> ''abc'']"

definition agent_no_number :: MessagingAgent where
  "agent_no_number = fst (MessagingAgent_init True (\<lambda>account_sid auth_token. client0) env_no_number)"

definition agent_no_sdk :: MessagingAgent where
  "agent_no_sdk = fst (MessagingAgent_init False (\<lambda>account_sid auth_token. client0) env_no_number)"

definition agent_whatsapp :: MessagingAgent where
  "agent_whatsapp = \<lparr>client = Some client0, from_number = Assigned (Some ''+15551234567'')\<rparr>"

text \<open>
  A mailbox with one multipart message whose text/plain part has 600 characters, and the
  summary a read returns for it.
\<close>

definition message_long :: email_message where
  "message_long = \<lparr>subject_chunk = Inr (Bytes_chunk (Inr ''long'')), from_header = Some ''c@example.com'',
                   date_header = None,
                   mime = Multipart ''multipart/mixed''
                            [Leaf ''text/plain'' (Inr (replicate 600 (CHR ''x''))),
                             Leaf ''application/pdf'' (Inl (LibraryError ''UnicodeDecodeError''))]\<rparr>"

definition mailbox_long :: imap_world where
  "mailbox_long =
     mailbox\<lparr>imap_search := Inr [Some ''7''],
             imap_fetch := (\<lambda>email_id. Inr [Tuple ''7 (RFC822 {600}'' ''raw7'', Bare (Some '')'')]),
             message_from_bytes := (\<lambda>raw. message_long)\<rparr>"

definition summary_long :: email_summary where
  "summary_long = \<lparr>e_from = Some ''c@example.com'', e_subject = ''long'',
                   e_body = replicate 500 (CHR ''x''), e_date = None\<rparr>"

definition summary1 :: email_summary where
  "summary1 = \<lparr>e_from = Some ''a@example.com'', e_subject = ''first'', e_body = ''hello'',
               e_date = Some ''Mon, 1 Jan 2024''\<rparr>"

definition summary2 :: email_summary where
  "summary2 = \<lparr>e_from = Some ''b@example.com'', e_subject = ''second'', e_body = [],
               e_date = None\<rparr>"

text \<open>An SMTP server that refuses the login, and a Twilio client whose calls raise.\<close>

definition smtp_bad_login :: smtp_world where
  "smtp_bad_login = smtp_ok\<lparr>smtp_login := (\<lambda>user password. Some (LibraryError ''SMTPAuthenticationError''))\<rparr>"

definition client_down :: twilio_client where
  "client_down = \<lparr>messages_create = (\<lambda>body from' to. Inl (LibraryError ''TwilioRestException'')),
                  messages_list = (\<lambda>limit. Inl (LibraryError ''TwilioRestException''))\<rparr>"

definition agent_down :: MessagingAgent where
  "agent_down = \<lparr>client = Some client_down, from_number = Assigned (Some ''+15551234567'')\<rparr>"

text \<open>The mailbox whose server rejects the login, and the one whose server fails to fetch message 2.\<close>

definition mailbox_bad_login :: imap_world where
  "mailbox_bad_login = mailbox\<lparr>imap_login := (\<lambda>user password. Some (LibraryError ''LOGIN failed''))\<rparr>"

definition mailbox_bad_fetch :: imap_world where
  "mailbox_bad_fetch =
     mailbox\<lparr>imap_fetch := (\<lambda>email_id.
        if email_id = ''1'' then Inr [Tuple ''1 (RFC822 {5}'' ''raw1'', Bare (Some '')'')]
        else Inl (LibraryError ''FETCH command error''))\<rparr>"

section \<open>Evaluation rules and lemmas about the loops\<close>

lemmas eval_defs = truthy_def getenv_def getenv_default_def py_int_def int_space_def digit_of_def
  slice_from_def bytes_space_def bytes_split_def calls_of_def first_split_def
  send_email_def send_sync_def send_sync_body_def build_message_def
  read_emails_def read_emails_sync_def read_emails_try_def summarise_def get_body_def
  send_sms_def send_sms_sync_def send_whatsapp_def send_whatsapp_sync_def msg_and_sid_def
  get_messages_def get_messages_sync_def summary_of_def
  EmailAgent_init_def MessagingAgent_init_def email_unconfigured_def
  agent0_def smtp_ok_def mailbox_def message1_def message2_def mailbox_bad_subject_def
  mailbox_bad_close_def message0_def client0_def env_no_number_def env_bad_port_def
  agent_no_number_def agent_no_sdk_def agent_whatsapp_def message_long_def mailbox_long_def summary_long_def
  summary1_def summary2_def smtp_bad_login_def client_down_def agent_down_def
  mailbox_bad_login_def mailbox_bad_fetch_def Let_def

lemma successes_append:
  "successes (xs @ ys) = (if first_failure xs = None then successes xs @ successes ys else successes xs)"
  by (induction xs rule: successes.induct) auto

lemma first_failure_append:
  "first_failure (xs @ ys) = (case first_failure xs of None \<Rightarrow> first_failure ys | Some e \<Rightarrow> Some e)"
  by (induction xs rule: first_failure.induct) auto

lemma parts_loop_attempts:
  "parts_loop w parts emails =
     (first_failure (tuple_attempts w parts), emails @ successes (tuple_attempts w parts))"
  by (induction w parts emails rule: parts_loop.induct) (auto split: sum.splits)

lemma ids_loop_attempts:
  "fst (ids_loop w ids emails) = first_failure (attempts w ids) \<and>
   fst (snd (ids_loop w ids emails)) = emails @ successes (attempts w ids)"
proof (induction ids arbitrary: emails)
  case Nil
  then show ?case by simp
next
  case (Cons email_id rest)
  show ?case
  proof (cases "imap_fetch w email_id")
    case (Inl e)
    then show ?thesis by simp
  next
    case (Inr msg_data)
    show ?thesis
    proof (cases "first_failure (tuple_attempts w msg_data)")
      case None
      with Inr Cons[of "emails @ successes (tuple_attempts w msg_data)"] show ?thesis
        by (auto simp: parts_loop_attempts successes_append first_failure_append split: prod.splits)
    next
      case (Some e)
      with Inr show ?thesis
        by (simp add: parts_loop_attempts successes_append first_failure_append)
    qed
  qed
qed

lemma read_emails_sync_result:
  "fst (read_emails_sync w self server port limit) =
     (if imap_connect w server port = None \<and>
         imap_login w (email_address self) (email_password self) = None \<and>
         imap_select w ''inbox'' = None
      then (case imap_search w of
              Inl e \<Rightarrow> []
            | Inr messages \<Rightarrow>
               (case first_split messages of
                  Inl e \<Rightarrow> []
                | Inr email_ids \<Rightarrow> successes (attempts w (slice_from email_ids (- limit)))))
      else [])"
proof -
  have loop: "\<And>ids r emails evs. ids_loop w ids [] = (r, emails, evs) \<Longrightarrow> emails = successes (attempts w ids)"
    using ids_loop_attempts[of w _ "[]"] by (metis append_Nil fst_conv snd_conv)
  show ?thesis
    unfolding read_emails_sync_def read_emails_try_def Let_def
    by (auto split: option.splits sum.splits prod.splits dest: loop)
qed

section \<open>The wrapper object is never written\<close>

text \<open>
  C9. Every public operation of both wrappers leaves the wrapper object as it was: after
  \<open>send_email\<close>, \<open>read_emails\<close>, \<open>send_sms\<close>, \<open>send_whatsapp\<close> or \<open>get_messages\<close> the object
  equals the object before the call, and so does each of its fields (\<open>smtp_server\<close>,
  \<open>smtp_port\<close>, \<open>email_address\<close>, \<open>email_password\<close>; \<open>client\<close>, \<open>from_number\<close>).
\<close>

theorem operations_keep_configuration:
  "self_after (send_email sw self to subject body is_html) = self \<and>
   self_after (read_emails env iw self limit) = self \<and>
   self_after (send_sms agent phone message) = agent \<and>
   self_after (send_whatsapp agent phone message) = agent \<and>
   self_after (get_messages agent count) = agent"
proof -
  have 1: "self_after (send_email sw self to subject body is_html) = self"
    by (simp add: send_email_def split: prod.splits option.splits)
  have 2: "self_after (read_emails env iw self limit) = self"
    by (simp add: read_emails_def Let_def split: prod.splits option.splits)
  have 3: "self_after (send_sms agent phone message) = agent"
    by (simp add: send_sms_def split: prod.splits option.splits sum.splits attr.splits)
  have 4: "self_after (send_whatsapp agent phone message) = agent"
    by (simp add: send_whatsapp_def Let_def split: prod.splits option.splits sum.splits attr.splits)
  have 5: "self_after (get_messages agent count) = agent"
    by (simp add: get_messages_def split: prod.splits)
  from 1 2 3 4 5 show ?thesis by blast
qed

theorem operations_keep_configuration_witness:
  "self_after (send_email smtp_ok agent0 ''you@example.com'' ''hi'' ''text'' False) = agent0 \<and>
   self_after (read_emails Map.empty mailbox agent0 10) = agent0 \<and>
   self_after (send_sms agent_whatsapp ''+15557654321'' ''hi'') = agent_whatsapp \<and>
   self_after (send_whatsapp agent_whatsapp ''+15557654321'' ''hi'') = agent_whatsapp \<and>
   self_after (get_messages agent_whatsapp 10) = agent_whatsapp"
  using operations_keep_configuration[where sw = smtp_ok and self = agent0
      and to = "''you@example.com''" and subject = "''hi''" and body = "''text''"
      and is_html = False and env = Map.empty and iw = mailbox and limit = 10
      and agent = agent_whatsapp and phone = "''+15557654321''" and message = "''hi''"
      and count = 10]
  by simp

section \<open>WhatsApp channel tag\<close>

text \<open>
  C6. With a sender number configured, \<open>send_whatsapp\<close> makes no provider call when the
  client is missing, and otherwise exactly one, whose \<open>from_\<close> and \<open>to\<close> arguments are the
  sender number and the recipient, each prefixed with \<open>whatsapp:\<close>. For the sender
  +15551234567 and the recipient +15557654321 they are whatsapp:+15551234567 and
  whatsapp:+15557654321.
\<close>

theorem whatsapp_identifiers_are_tagged:
  assumes "from_number self = Assigned (Some number)" and "number \<noteq> []"
  shows "calls_of (events (send_whatsapp self to message)) =
           (case client self of
              None \<Rightarrow> []
            | Some c \<Rightarrow> [Twilio_create message (Some (''whatsapp:'' @ number)) (''whatsapp:'' @ to)])"
  using assms
  by (auto simp: send_whatsapp_def send_whatsapp_sync_def truthy_def calls_of_def Let_def
           split: option.splits sum.splits)

theorem whatsapp_identifiers_are_tagged_witness:
  "from_number agent_whatsapp = Assigned (Some ''+15551234567'') \<and>
   calls_of (events (send_whatsapp agent_whatsapp ''+15557654321'' ''hello'')) =
     [Twilio_create ''hello'' (Some ''whatsapp:+15551234567'') ''whatsapp:+15557654321'']"
proof -
  have h: "from_number agent_whatsapp = Assigned (Some ''+15551234567'')"
    by (simp add: agent_whatsapp_def)
  have c: "client agent_whatsapp = Some client0"
    by (simp add: agent_whatsapp_def)
  show ?thesis
    using h whatsapp_identifiers_are_tagged[OF h, of "''+15557654321''" "''hello''"] c by simp
qed

section \<open>When a send counts as successful\<close>

text \<open>
  C8. For \<open>send_sms\<close> and \<open>send_whatsapp\<close> called with a client and a non-empty sender
  number: when the provider call returns, the operation returns \<open>True\<close> exactly when the
  provider returned a message object whose sid is neither \<open>None\<close> nor empty, and \<open>False\<close>
  otherwise; when the provider call raises, the operation returns \<open>False\<close>.
\<close>

theorem send_succeeds_iff_sid:
  assumes "client self = Some c" and "from_number self = Assigned (Some number)" and "number \<noteq> []"
  shows "(\<forall>msg. messages_create c message (Some number) to = Inr msg \<longrightarrow>
            (returned (send_sms self to message) = Inr True) =
              (\<exists>m sid. msg = Some m \<and> tw_sid m = Some sid \<and> sid \<noteq> []) \<and>
            (returned (send_sms self to message) = Inr True \<or>
             returned (send_sms self to message) = Inr False)) \<and>
         (\<forall>e. messages_create c message (Some number) to = Inl e \<longrightarrow>
            returned (send_sms self to message) = Inr False) \<and>
         (\<forall>msg. messages_create c message (Some (''whatsapp:'' @ number)) (''whatsapp:'' @ to) = Inr msg \<longrightarrow>
            (returned (send_whatsapp self to message) = Inr True) =
              (\<exists>m sid. msg = Some m \<and> tw_sid m = Some sid \<and> sid \<noteq> []) \<and>
            (returned (send_whatsapp self to message) = Inr True \<or>
             returned (send_whatsapp self to message) = Inr False)) \<and>
         (\<forall>e. messages_create c message (Some (''whatsapp:'' @ number)) (''whatsapp:'' @ to) = Inl e \<longrightarrow>
            returned (send_whatsapp self to message) = Inr False)"
proof -
  have sid: "\<And>msg. (msg_and_sid msg \<noteq> None) = (\<exists>m sid. msg = Some m \<and> tw_sid m = Some sid \<and> sid \<noteq> [])"
    by (auto simp: msg_and_sid_def truthy_def split: option.splits)
  have sms: "returned (send_sms self to message) =
               Inr (case messages_create c message (Some number) to of
                      Inl e \<Rightarrow> False | Inr msg \<Rightarrow> msg_and_sid msg \<noteq> None)"
    using assms
    by (auto simp: send_sms_def send_sms_sync_def truthy_def split: sum.splits option.splits)
  have wa: "returned (send_whatsapp self to message) =
               Inr (case messages_create c message (Some (''whatsapp:'' @ number)) (''whatsapp:'' @ to) of
                      Inl e \<Rightarrow> False | Inr msg \<Rightarrow> msg_and_sid msg \<noteq> None)"
    using assms
    by (auto simp: send_whatsapp_def send_whatsapp_sync_def truthy_def Let_def
             split: sum.splits option.splits)
  show ?thesis
    unfolding sms wa using sid by (auto split: sum.splits)
qed

theorem send_succeeds_iff_sid_witness:
  "client agent_whatsapp = Some client0 \<and>
   from_number agent_whatsapp = Assigned (Some ''+15551234567'') \<and>
   messages_create client0 ''hi'' (Some ''+15551234567'') ''+15557654321'' = Inr (Some message0) \<and>
   tw_sid message0 = Some ''SM1'' \<and>
   returned (send_sms agent_whatsapp ''+15557654321'' ''hi'') = Inr True \<and>
   returned (send_whatsapp agent_whatsapp ''+15557654321'' ''hi'') = Inr True \<and>
   client agent_down = Some client_down \<and>
   messages_create client_down ''hi'' (Some ''+15551234567'') ''+15557654321''
     = Inl (LibraryError ''TwilioRestException'') \<and>
   returned (send_sms agent_down ''+15557654321'' ''hi'') = Inr False \<and>
   returned (send_whatsapp agent_down ''+15557654321'' ''hi'') = Inr False"
proof -
  have c: "client agent_whatsapp = Some client0"
    and n: "from_number agent_whatsapp = Assigned (Some ''+15551234567'')"
    and ne: "''+15551234567'' \<noteq> []"
    by (simp_all add: agent_whatsapp_def)
  have r: "messages_create client0 ''hi'' (Some ''+15551234567'') ''+15557654321'' = Inr (Some message0)"
    and r': "messages_create client0 ''hi'' (Some (''whatsapp:'' @ ''+15551234567'')) (''whatsapp:'' @ ''+15557654321'') = Inr (Some message0)"
    and s: "tw_sid message0 = Some ''SM1''"
    by (simp_all add: client0_def message0_def)
  have c2: "client agent_down = Some client_down"
    and n2: "from_number agent_down = Assigned (Some ''+15551234567'')"
    by (simp_all add: agent_down_def)
  have d: "messages_create client_down ''hi'' (Some ''+15551234567'') ''+15557654321''
             = Inl (LibraryError ''TwilioRestException'')"
    and d': "messages_create client_down ''hi'' (Some (''whatsapp:'' @ ''+15551234567'')) (''whatsapp:'' @ ''+15557654321'')
             = Inl (LibraryError ''TwilioRestException'')"
    by (simp_all add: client_down_def)
  from send_succeeds_iff_sid[OF c n ne, of "''hi''" "''+15557654321''"] r r' s
  have 1: "returned (send_sms agent_whatsapp ''+15557654321'' ''hi'') = Inr True \<and>
           returned (send_whatsapp agent_whatsapp ''+15557654321'' ''hi'') = Inr True"
    by simp
  from send_succeeds_iff_sid[OF c2 n2 ne, of "''hi''" "''+15557654321''"] d d'
  have 2: "returned (send_sms agent_down ''+15557654321'' ''hi'') = Inr False \<and>
           returned (send_whatsapp agent_down ''+15557654321'' ''hi'') = Inr False"
    by simp
  from c n r s c2 d 1 2 show ?thesis by simp
qed

section \<open>Unconfigured wrappers\<close>




section \<open>Constructing the email wrapper\<close>

text \<open>
  C4, as the code has it. When EMAIL\_ADDRESS or EMAIL\_PASSWORD is absent and SMTP\_PORT is
  unset or holds a literal that \<open>int\<close> accepts, the constructor returns a wrapper, prints
  the warning and nothing else, and the wrapper is unconfigured.
\<close>

theorem init_without_credentials:
  assumes "getenv env ''EMAIL_ADDRESS'' = None \<or> getenv env ''EMAIL_PASSWORD'' = None"
    and "py_int (getenv_default env ''SMTP_PORT'' ''587'') = Some port"
  shows "\<exists>self. EmailAgent_init env =
           Inr (self, [Print ''[EMAIL] Warning: Email credentials not set in .env file'']) \<and>
         smtp_port self = port \<and> email_unconfigured self"
  using assms by (auto simp: EmailAgent_init_def email_unconfigured_def truthy_def Let_def)

theorem init_without_credentials_witness:
  "getenv Map.empty ''EMAIL_ADDRESS'' = None \<and>
   py_int (getenv_default Map.empty ''SMTP_PORT'' ''587'') = Some 587 \<and>
   (\<exists>self. EmailAgent_init Map.empty =
           Inr (self, [Print ''[EMAIL] Warning: Email credentials not set in .env file'']) \<and>
         smtp_port self = 587 \<and> email_unconfigured self)"
proof -
  have a: "getenv Map.empty ''EMAIL_ADDRESS'' = None \<or> getenv Map.empty ''EMAIL_PASSWORD'' = None"
    by (simp add: getenv_def)
  have p: "py_int (getenv_default Map.empty ''SMTP_PORT'' ''587'') = Some 587"
    by (simp add: getenv_default_def py_int_def int_space_def digit_of_def)
  from init_without_credentials[OF a p] p show ?thesis by (simp add: getenv_def)
qed

text \<open>
  C4 as stated fails: with both credentials absent and SMTP\_PORT set to \<open>abc\<close>, the
  constructor raises \<open>ValueError\<close>.
\<close>

theorem init_raises_on_bad_port:
  "getenv env_bad_port ''EMAIL_ADDRESS'' = None \<and> getenv env_bad_port ''EMAIL_PASSWORD'' = None \<and>
   getenv env_bad_port ''SMTP_PORT'' = Some ''abc'' \<and>
   EmailAgent_init env_bad_port = Inl ValueError"
  by (simp add: EmailAgent_init_def env_bad_port_def getenv_def getenv_default_def py_int_def
        int_space_def digit_of_def)

section \<open>The limit of a read\<close>

text \<open>
  The slice \<open>email_ids[-limit:]\<close> keeps the last \<open>limit\<close> identifiers only for a positive
  limit; for the limit 0 it is the whole list.
\<close>

lemma slice_from_positive_limit:
  "0 < limit \<Longrightarrow> slice_from xs (- limit) = drop (length xs - nat limit) xs"
  by (auto simp: slice_from_def Let_def max_def nat_diff_distrib' intro: arg_cong2[where f = drop])

lemma slice_from_limit_zero: "slice_from xs (- 0) = xs"
  by (simp add: slice_from_def)

lemma length_successes: "length (successes xs) \<le> length xs"
  by (induction xs rule: successes.induct) auto

lemma length_attempts:
  assumes "\<And>email_id msg_data. imap_fetch w email_id = Inr msg_data \<Longrightarrow> length (tuple_attempts w msg_data) \<le> 1"
  shows "length (attempts w ids) \<le> length ids"
proof (induction ids)
  case Nil
  then show ?case by simp
next
  case (Cons email_id rest)
  show ?case
  proof (cases "imap_fetch w email_id")
    case (Inl e)
    with Cons show ?thesis by simp
  next
    case (Inr msg_data)
    from assms[OF Inr] Cons Inr show ?thesis by simp
  qed
qed

lemma positive_limit_bounds_result:
  assumes "0 < limit"
    and "\<And>email_id msg_data. imap_fetch w email_id = Inr msg_data \<Longrightarrow> length (tuple_attempts w msg_data) \<le> 1"
  shows "int (length (returned (read_emails env w self limit))) \<le> limit"
proof -
  have bound: "int (length (successes (attempts w (slice_from ids (- limit))))) \<le> limit" for ids
  proof -
    have "length (successes (attempts w (slice_from ids (- limit)))) \<le> length (slice_from ids (- limit))"
      using length_successes length_attempts[OF assms(2)] by (meson le_trans)
    also have "\<dots> \<le> nat limit"
      using assms(1) by (simp add: slice_from_positive_limit)
    finally show ?thesis using assms(1) by simp
  qed
  have "int (length (fst (read_emails_sync w self server port limit))) \<le> limit" for server port
    using bound assms(1) by (simp add: read_emails_sync_result split: sum.splits)
  then show ?thesis
    using assms(1)
    by (auto simp: read_emails_def Let_def split: option.splits prod.splits) (metis fst_conv)
qed

text \<open>
  C5. The docstring of \<open>read_emails\<close> calls \<open>limit\<close> the maximum number of emails to
  retrieve, and for a positive limit the code keeps to it. For the limit 0 the code reads
  the whole mailbox: on the mailbox with the messages 1 and 2 it returns both summaries.
\<close>

theorem limit_zero_reads_whole_mailbox:
  "returned (read_emails Map.empty mailbox agent0 0) = [summary1, summary2]"
  by (simp add: eval_defs)

theorem limit_zero_reads_whole_mailbox_witness:
  "int (length (returned (read_emails Map.empty mailbox agent0 0))) = 2 \<and>
   (0::int) < 2"
  unfolding limit_zero_reads_whole_mailbox by simp

section \<open>The body of a summary\<close>

text \<open>Every entry of the list a read returns is the summary of a message of a fetch response.\<close>

lemma successes_mem: "s \<in> set (successes xs) \<Longrightarrow> Inr s \<in> set xs"
  by (induction xs rule: successes.induct) auto

lemma tuple_attempts_mem:
  "Inr s \<in> set (tuple_attempts w parts) \<Longrightarrow>
     \<exists>envelope raw. Tuple envelope raw \<in> set parts \<and> summarise (message_from_bytes w raw) = Inr s"
proof (induction w parts rule: tuple_attempts.induct)
  case (3 w envelope raw rest)
  show ?case
  proof (cases "summarise (message_from_bytes w raw) = Inr s")
    case True
    then show ?thesis by auto
  next
    case False
    with 3 show ?thesis by (metis list.set_intros(2) set_ConsD tuple_attempts.simps(3))
  qed
qed auto

lemma attempts_mem:
  "Inr s \<in> set (attempts w ids) \<Longrightarrow>
     \<exists>email_id msg_data. email_id \<in> set ids \<and> imap_fetch w email_id = Inr msg_data \<and>
        Inr s \<in> set (tuple_attempts w msg_data)"
  by (induction ids) (auto split: sum.splits)

lemma returned_entries_are_summaries:
  assumes "s \<in> set (returned (read_emails env w self limit))"
  shows "\<exists>email_id msg_data envelope raw.
           imap_fetch w email_id = Inr msg_data \<and> Tuple envelope raw \<in> set msg_data \<and>
           summarise (message_from_bytes w raw) = Inr s"
proof -
  from assms have "\<exists>server port. s \<in> set (fst (read_emails_sync w self server port limit))"
    by (auto simp: read_emails_def Let_def split: option.splits if_splits prod.splits)
       (metis fst_conv)
  then obtain server port where "s \<in> set (fst (read_emails_sync w self server port limit))"
    by blast
  then have "\<exists>ids. s \<in> set (successes (attempts w ids))"
    by (simp only: read_emails_sync_result split: if_splits sum.splits) auto
  then obtain ids where "s \<in> set (successes (attempts w ids))"
    by blast
  then have "Inr s \<in> set (attempts w ids)" by (rule successes_mem)
  then show ?thesis using attempts_mem tuple_attempts_mem by blast
qed

lemma walk_loop_no_plain:
  "\<forall>part \<in> set parts. get_content_type part \<noteq> ''text/plain'' \<Longrightarrow> walk_loop parts = Inr []"
  by (induction parts) auto

text \<open>
  C7. Every entry of the list \<open>read_emails\<close> returns is the summary of a fetched message,
  and the summary of a message holds its body text cut by \<open>body[:500]\<close>: when the decoded
  text is longer than 500 characters the stored body is its first 500 characters, exactly
  500 of them; a text of 500 characters or fewer is stored unchanged.
\<close>

theorem summary_body_is_first_500_characters:
  "(\<forall>s \<in> set (returned (read_emails env w self limit)).
      \<exists>email_id msg_data envelope raw.
        imap_fetch w email_id = Inr msg_data \<and> Tuple envelope raw \<in> set msg_data \<and>
        summarise (message_from_bytes w raw) = Inr s) \<and>
   (\<forall>msg s. summarise msg = Inr s \<longrightarrow>
      (\<exists>body. get_body (mime msg) = Inr body \<and>
         (500 < length body \<longrightarrow> e_body s = take 500 body \<and> length (e_body s) = 500) \<and>
         (length body \<le> 500 \<longrightarrow> e_body s = body)))"
proof -
  have "\<exists>body. get_body (mime msg) = Inr body \<and>
         (500 < length body \<longrightarrow> e_body s = take 500 body \<and> length (e_body s) = 500) \<and>
         (length body \<le> 500 \<longrightarrow> e_body s = body)"
    if "summarise msg = Inr s" for msg s
    using that by (auto simp: summarise_def split: sum.splits header_chunk.splits)
  then show ?thesis using returned_entries_are_summaries by blast
qed

theorem summary_body_is_first_500_characters_witness:
  "summary_long \<in> set (returned (read_emails Map.empty mailbox_long agent0 10)) \<and>
   summarise message_long = Inr summary_long \<and>
   get_body (mime message_long) = Inr (replicate 600 (CHR ''x'')) \<and>
   (\<exists>email_id msg_data envelope raw.
      imap_fetch mailbox_long email_id = Inr msg_data \<and> Tuple envelope raw \<in> set msg_data \<and>
      summarise (message_from_bytes mailbox_long raw) = Inr summary_long) \<and>
   length (e_body summary_long) = 500 \<and>
   e_body summary_long = take 500 (replicate 600 (CHR ''x''))"
proof -
  note t = summary_body_is_first_500_characters[of Map.empty mailbox_long agent0 10]
  have mem: "summary_long \<in> set (returned (read_emails Map.empty mailbox_long agent0 10))"
    by (simp add: eval_defs)
  have sm: "summarise message_long = Inr summary_long"
    by (simp add: eval_defs)
  have gb: "get_body (mime message_long) = Inr (replicate 600 (CHR ''x''))"
    by (simp add: eval_defs)
  from t mem have a: "\<exists>email_id msg_data envelope raw.
      imap_fetch mailbox_long email_id = Inr msg_data \<and> Tuple envelope raw \<in> set msg_data \<and>
      summarise (message_from_bytes mailbox_long raw) = Inr summary_long"
    by blast
  from t sm have "\<exists>body. get_body (mime message_long) = Inr body \<and>
         (500 < length body \<longrightarrow> e_body summary_long = take 500 body \<and> length (e_body summary_long) = 500) \<and>
         (length body \<le> 500 \<longrightarrow> e_body summary_long = body)"
    by blast
  with gb have b: "length (e_body summary_long) = 500 \<and>
      e_body summary_long = take 500 (replicate 600 (CHR ''x''))"
    by simp
  from mem sm gb a b show ?thesis by blast
qed

text \<open>
  C10. For a multipart message in which no part met by \<open>walk()\<close> has the content type
  text/plain (an HTML-only message, say) the body of the summary is the empty string; for a
  message that is not multipart it is the whole decoded payload, cut to 500 characters.
  Every entry of the list \<open>read_emails\<close> returns is such a summary.
\<close>

theorem summary_body_without_plain_text:
  "(\<forall>s \<in> set (returned (read_emails env w self limit)).
      \<exists>email_id msg_data envelope raw.
        imap_fetch w email_id = Inr msg_data \<and> Tuple envelope raw \<in> set msg_data \<and>
        summarise (message_from_bytes w raw) = Inr s) \<and>
   (\<forall>msg s. summarise msg = Inr s \<longrightarrow>
      (is_multipart (mime msg) \<and>
       (\<forall>part \<in> set (walk (mime msg)). get_content_type part \<noteq> ''text/plain'') \<longrightarrow>
         e_body s = []) \<and>
      (\<not> is_multipart (mime msg) \<longrightarrow>
         (\<exists>payload. payload_decode (mime msg) = Inr payload \<and> e_body s = take 500 payload)))"
proof -
  have a: "e_body s = []"
    if "summarise msg = Inr s" "is_multipart (mime msg)"
       "\<forall>part \<in> set (walk (mime msg)). get_content_type part \<noteq> ''text/plain''" for msg s
    using that walk_loop_no_plain[of "walk (mime msg)"]
    by (auto simp: summarise_def get_body_def split: sum.splits header_chunk.splits)
  have b: "\<exists>payload. payload_decode (mime msg) = Inr payload \<and> e_body s = take 500 payload"
    if "summarise msg = Inr s" "\<not> is_multipart (mime msg)" for msg s
    using that by (auto simp: summarise_def get_body_def split: sum.splits header_chunk.splits)
  from a b returned_entries_are_summaries show ?thesis by blast
qed

theorem summary_body_without_plain_text_witness:
  "summary1 \<in> set (returned (read_emails Map.empty mailbox agent0 10)) \<and>
   summary2 \<in> set (returned (read_emails Map.empty mailbox agent0 10)) \<and>
   summarise message1 = Inr summary1 \<and> \<not> is_multipart (mime message1) \<and>
   payload_decode (mime message1) = Inr ''hello'' \<and> e_body summary1 = take 500 ''hello'' \<and>
   summarise message2 = Inr summary2 \<and> is_multipart (mime message2) \<and>
   list_all (\<lambda>part. get_content_type part \<noteq> ''text/plain'') (walk (mime message2)) \<and>
   e_body summary2 = [] \<and>
   (\<exists>email_id msg_data envelope raw.
      imap_fetch mailbox email_id = Inr msg_data \<and> Tuple envelope raw \<in> set msg_data \<and>
      summarise (message_from_bytes mailbox raw) = Inr summary2)"
proof -
  note t = summary_body_without_plain_text[of Map.empty mailbox agent0 10]
  have mem: "summary1 \<in> set (returned (read_emails Map.empty mailbox agent0 10))"
       "summary2 \<in> set (returned (read_emails Map.empty mailbox agent0 10))"
    by (simp_all add: eval_defs)
  have s1: "summarise message1 = Inr summary1" "\<not> is_multipart (mime message1)"
       "payload_decode (mime message1) = Inr ''hello''"
    by (simp_all add: eval_defs)
  have s2: "summarise message2 = Inr summary2" "is_multipart (mime message2)"
    by (simp_all add: eval_defs)
  have np: "\<forall>part \<in> set (walk (mime message2)). get_content_type part \<noteq> ''text/plain''"
    by (simp add: eval_defs)
  from t mem(2) have a: "\<exists>email_id msg_data envelope raw.
      imap_fetch mailbox email_id = Inr msg_data \<and> Tuple envelope raw \<in> set msg_data \<and>
      summarise (message_from_bytes mailbox raw) = Inr summary2"
    by blast
  from t s2 np have b: "e_body summary2 = []" by blast
  from t s1 have "\<exists>payload. payload_decode (mime message1) = Inr payload \<and> e_body summary1 = take 500 payload"
    by blast
  with s1(3) have c: "e_body summary1 = take 500 ''hello''" by simp
  have la: "list_all (\<lambda>part. get_content_type part \<noteq> ''text/plain'') (walk (mime message2))"
    using np by (simp add: list_all_iff)
  from mem s1 s2 la a b c show ?thesis by blast
qed

section \<open>Failures during a retrieval\<close>

lemma returned_read_emails:
  assumes "py_int (getenv_default env ''IMAP_PORT'' ''993'') = Some port"
    and "\<not> email_unconfigured self"
  shows "returned (read_emails env w self limit) =
           fst (read_emails_sync w self (getenv_default env ''IMAP_SERVER'' ''imap.gmail.com'') port limit)"
  using assms by (simp add: read_emails_def email_unconfigured_def Let_def split: prod.splits)

lemma get_messages_list_raises:
  "client agent = Some c \<Longrightarrow> messages_list c count = Inl e \<Longrightarrow> returned (get_messages agent count) = []"
  by (simp add: get_messages_def get_messages_sync_def)

text \<open>
  C1, as the code has it. A retrieval that fails returns the summaries built before the
  failure. For \<open>read_emails\<close> the list is empty when IMAP\_PORT is no integer, when the
  connection, the login, the mailbox selection or the search raises, and when the search
  result cannot be split; after that it holds the summaries of the messages processed
  before the first fetch or decoding failure (all of them when there is none, whatever
  CLOSE and LOGOUT do). For \<open>get_messages\<close> a failing \<open>messages.list\<close> gives the empty list.
\<close>

theorem retrieval_returns_summaries_before_failure:
  "(py_int (getenv_default env ''IMAP_PORT'' ''993'') = None \<longrightarrow>
      returned (read_emails env w self limit) = []) \<and>
   (\<forall>port. py_int (getenv_default env ''IMAP_PORT'' ''993'') = Some port \<and> \<not> email_unconfigured self \<longrightarrow>
      returned (read_emails env w self limit) =
        (if imap_connect w (getenv_default env ''IMAP_SERVER'' ''imap.gmail.com'') port = None \<and>
            imap_login w (email_address self) (email_password self) = None \<and>
            imap_select w ''inbox'' = None
         then (case imap_search w of
                 Inl e \<Rightarrow> []
               | Inr messages \<Rightarrow>
                  (case first_split messages of
                     Inl e \<Rightarrow> []
                   | Inr email_ids \<Rightarrow> successes (attempts w (slice_from email_ids (- limit)))))
         else [])) \<and>
   (\<forall>c e. client agent = Some c \<and> messages_list c count = Inl e \<longrightarrow>
      returned (get_messages agent count) = [])"
proof -
  have a: "py_int (getenv_default env ''IMAP_PORT'' ''993'') = None \<Longrightarrow>
      returned (read_emails env w self limit) = []"
    by (simp add: read_emails_def)
  show ?thesis
    using a returned_read_emails[of env _ self w limit] get_messages_list_raises[of agent _ count]
    by (simp add: read_emails_sync_result)
qed

theorem retrieval_returns_summaries_before_failure_witness:
  "py_int (getenv_default Map.empty ''IMAP_PORT'' ''993'') = Some 993 \<and>
   \<not> email_unconfigured agent0 \<and>
   imap_search mailbox_bad_subject = Inr [Some ''1 2''] \<and>
   first_split [Some ''1 2''] = Inr [''1'', ''2''] \<and>
   attempts mailbox_bad_subject (slice_from [''1'', ''2''] (- 10)) =
     [Inr summary1, Inl (LibraryError ''TypeError'')] \<and>
   returned (read_emails Map.empty mailbox_bad_subject agent0 10) = [summary1] \<and>
   client agent_down = Some client_down \<and>
   messages_list client_down 10 = Inl (LibraryError ''TwilioRestException'') \<and>
   returned (get_messages agent_down 10) = []"
proof -
  note t = retrieval_returns_summaries_before_failure[of Map.empty mailbox_bad_subject agent0 10
      agent_down 10]
  have p: "py_int (getenv_default Map.empty ''IMAP_PORT'' ''993'') = Some 993"
    by (simp add: eval_defs)
  have u: "\<not> email_unconfigured agent0"
    by (simp add: eval_defs)
  have s: "imap_search mailbox_bad_subject = Inr [Some ''1 2'']"
    "first_split [Some ''1 2''] = Inr [''1'', ''2'']"
    "imap_connect mailbox_bad_subject (getenv_default Map.empty ''IMAP_SERVER'' ''imap.gmail.com'') 993 = None"
    "imap_login mailbox_bad_subject (email_address agent0) (email_password agent0) = None"
    "imap_select mailbox_bad_subject ''inbox'' = None"
    by (simp_all add: eval_defs)
  have at: "attempts mailbox_bad_subject (slice_from [''1'', ''2''] (- 10)) =
     [Inr summary1, Inl (LibraryError ''TypeError'')]"
    by (simp add: eval_defs)
  have c: "client agent_down = Some client_down"
    "messages_list client_down 10 = Inl (LibraryError ''TwilioRestException'')"
    by (simp_all add: eval_defs)
  from t p u s at have r: "returned (read_emails Map.empty mailbox_bad_subject agent0 10) = [summary1]"
    by simp
  from t c have g: "returned (get_messages agent_down 10) = []"
    by blast
  from p u s(1,2) at r c g show ?thesis by blast
qed

text \<open>
  C1 as stated fails: in the mailbox whose second message has no Subject header, decoding
  that message raises, the handler of \<open>_read_emails_sync\<close> prints the error, and the
  summary of the first message is returned.
\<close>

theorem read_keeps_summaries_built_before_a_failure:
  "Print_exc ''[EMAIL] IMAP error: '' (LibraryError ''TypeError'')
     \<in> set (events (read_emails Map.empty mailbox_bad_subject agent0 10)) \<and>
   returned (read_emails Map.empty mailbox_bad_subject agent0 10) = [summary1] \<and>
   returned (read_emails Map.empty mailbox_bad_subject agent0 10) \<noteq> []"
  by (simp add: eval_defs)

section \<open>Exceptions of the provider calls\<close>

lemma attempts_append: "attempts w (xs @ ys) = attempts w xs @ attempts w ys"
  by (induction xs) auto

lemma tuple_attempts_close_logout:
  "tuple_attempts (w\<lparr>imap_close := x, imap_logout := y\<rparr>) parts = tuple_attempts w parts"
  by (induction w parts rule: tuple_attempts.induct) auto

lemma attempts_close_logout:
  "attempts (w\<lparr>imap_close := x, imap_logout := y\<rparr>) ids = attempts w ids"
  by (induction ids) (auto simp: tuple_attempts_close_logout split: sum.splits)

lemma read_emails_close_logout:
  "returned (read_emails env (w\<lparr>imap_close := x, imap_logout := y\<rparr>) self limit) =
   returned (read_emails env w self limit)"
proof -
  have "fst (read_emails_sync (w\<lparr>imap_close := x, imap_logout := y\<rparr>) self server port limit) =
        fst (read_emails_sync w self server port limit)" for server port
    by (simp add: read_emails_sync_result attempts_close_logout cong: sum.case_cong)
  then show ?thesis
    by (auto simp: read_emails_def Let_def split: option.splits prod.splits) (metis fst_conv)
qed

lemma send_email_raises:
  assumes "smtp_connect sw (smtp_server self) (smtp_port self) \<noteq> None \<or>
           smtp_starttls sw \<noteq> None \<or>
           smtp_login sw (email_address self) (email_password self) \<noteq> None \<or>
           smtp_send_message sw (build_message self to subject body is_html) \<noteq> None \<or>
           smtp_exit sw \<noteq> None"
  shows "returned (send_email sw self to subject body is_html) = False"
  using assms
  by (auto simp: send_email_def send_sync_def send_sync_body_def split: option.splits prod.splits)

lemma send_sms_raises:
  "client agent = Some c \<Longrightarrow> from_number agent = Assigned number \<Longrightarrow>
   messages_create c message number phone = Inl e \<Longrightarrow>
   returned (send_sms agent phone message) = Inr False"
  by (auto simp: send_sms_def send_sms_sync_def split: option.splits sum.splits)

lemma send_whatsapp_raises:
  "client agent = Some c \<Longrightarrow> from_number agent = Assigned (Some number) \<Longrightarrow>
   messages_create c message (Some (''whatsapp:'' @ number)) (''whatsapp:'' @ phone) = Inl e \<Longrightarrow>
   returned (send_whatsapp agent phone message) = Inr False"
  by (auto simp: send_whatsapp_def send_whatsapp_sync_def truthy_def Let_def
           split: option.splits sum.splits)

lemma constructed_agent_never_raises:
  assumes "agent = fst (MessagingAgent_init available TwilioClient menv)"
  shows "(\<exists>b. returned (send_sms agent phone message) = Inr b) \<and>
         (\<exists>b. returned (send_whatsapp agent phone message) = Inr b)"
proof -
  have "client agent = None \<or> (\<exists>number. from_number agent = Assigned number)"
    using assms by (auto simp: MessagingAgent_init_def Let_def)
  then show ?thesis
    by (auto simp: send_sms_def send_whatsapp_def Let_def split: sum.splits option.splits prod.splits)
qed

lemma read_emails_early_raise:
  assumes "imap_connect w (getenv_default env ''IMAP_SERVER'' ''imap.gmail.com'') port \<noteq> None \<or>
           imap_login w (email_address self) (email_password self) \<noteq> None \<or>
           imap_select w ''inbox'' \<noteq> None \<or> (\<exists>e. imap_search w = Inl e)"
    and "py_int (getenv_default env ''IMAP_PORT'' ''993'') = Some port"
  shows "returned (read_emails env w self limit) = []"
proof -
  have "fst (read_emails_sync w self (getenv_default env ''IMAP_SERVER'' ''imap.gmail.com'') port limit) = []"
    using assms(1) by (auto simp: read_emails_sync_result)
  then show ?thesis using assms(2)
    by (auto simp: read_emails_def Let_def split: prod.splits)
qed

lemma read_emails_fetch_raises:
  assumes "py_int (getenv_default env ''IMAP_PORT'' ''993'') = Some port"
    and "\<not> email_unconfigured self"
    and "imap_connect w (getenv_default env ''IMAP_SERVER'' ''imap.gmail.com'') port = None"
    and "imap_login w (email_address self) (email_password self) = None"
    and "imap_select w ''inbox'' = None"
    and "imap_search w = Inr messages"
    and "first_split messages = Inr email_ids"
    and "slice_from email_ids (- limit) = before @ email_id # later"
    and "first_failure (attempts w before) = None"
    and "imap_fetch w email_id = Inl e"
  shows "returned (read_emails env w self limit) = successes (attempts w before)"
proof -
  have "successes (attempts w (before @ email_id # later)) = successes (attempts w before)"
    using assms(9,10) by (simp add: attempts_append successes_append)
  with assms(1-8) show ?thesis
    by (simp add: returned_read_emails read_emails_sync_result)
qed

text \<open>
  C3, as the code has it. No exception of a provider or transport call leaves an
  operation: \<open>send_email\<close>, \<open>read_emails\<close> and \<open>get_messages\<close> return a value on every
  path, and \<open>send_sms\<close> and \<open>send_whatsapp\<close> do so for every wrapper the constructor
  builds. When a step of the SMTP session raises, \<open>send_email\<close> returns \<open>False\<close>; when
  \<open>messages.create\<close> raises, \<open>send_sms\<close> and \<open>send_whatsapp\<close> return \<open>False\<close>; when
  \<open>messages.list\<close> raises, \<open>get_messages\<close> returns the empty list; when the IMAP
  connection, login, mailbox selection or search raises, \<open>read_emails\<close> returns the empty
  list. When an IMAP fetch raises, \<open>read_emails\<close> returns the summaries of the messages
  fetched before, and what CLOSE and LOGOUT do never changes the list returned.
\<close>

theorem provider_exceptions_never_escape:
  "(smtp_connect sw (smtp_server self) (smtp_port self) \<noteq> None \<or>
    smtp_starttls sw \<noteq> None \<or>
    smtp_login sw (email_address self) (email_password self) \<noteq> None \<or>
    smtp_send_message sw (build_message self to subject body is_html) \<noteq> None \<or>
    smtp_exit sw \<noteq> None \<longrightarrow>
      returned (send_email sw self to subject body is_html) = False) \<and>
   (\<forall>c number e.
      client agent = Some c \<and> from_number agent = Assigned number \<and>
      messages_create c message number phone = Inl e \<longrightarrow>
        returned (send_sms agent phone message) = Inr False) \<and>
   (\<forall>c number e.
      client agent = Some c \<and> from_number agent = Assigned (Some number) \<and>
      messages_create c message (Some (''whatsapp:'' @ number)) (''whatsapp:'' @ phone) = Inl e \<longrightarrow>
        returned (send_whatsapp agent phone message) = Inr False) \<and>
   (\<forall>available TwilioClient menv.
      agent = fst (MessagingAgent_init available TwilioClient menv) \<longrightarrow>
        (\<exists>b. returned (send_sms agent phone message) = Inr b) \<and>
        (\<exists>b. returned (send_whatsapp agent phone message) = Inr b)) \<and>
   (\<forall>c e. client agent = Some c \<and> messages_list c count = Inl e \<longrightarrow>
      returned (get_messages agent count) = []) \<and>
   (\<forall>port.
      py_int (getenv_default env ''IMAP_PORT'' ''993'') = Some port \<and>
      (imap_connect w (getenv_default env ''IMAP_SERVER'' ''imap.gmail.com'') port \<noteq> None \<or>
       imap_login w (email_address self) (email_password self) \<noteq> None \<or>
       imap_select w ''inbox'' \<noteq> None \<or> (\<exists>e. imap_search w = Inl e)) \<longrightarrow>
        returned (read_emails env w self limit) = []) \<and>
   (\<forall>port messages email_ids before email_id later e.
      py_int (getenv_default env ''IMAP_PORT'' ''993'') = Some port \<and>
      \<not> email_unconfigured self \<and>
      imap_connect w (getenv_default env ''IMAP_SERVER'' ''imap.gmail.com'') port = None \<and>
      imap_login w (email_address self) (email_password self) = None \<and>
      imap_select w ''inbox'' = None \<and>
      imap_search w = Inr messages \<and> first_split messages = Inr email_ids \<and>
      slice_from email_ids (- limit) = before @ email_id # later \<and>
      first_failure (attempts w before) = None \<and>
      imap_fetch w email_id = Inl e \<longrightarrow>
        returned (read_emails env w self limit) = successes (attempts w before)) \<and>
   (\<forall>x y. returned (read_emails env (w\<lparr>imap_close := x, imap_logout := y\<rparr>) self limit) =
           returned (read_emails env w self limit))"
proof -
  show ?thesis
    apply (intro conjI allI impI)
    subgoal by (rule send_email_raises)
    subgoal using send_sms_raises by blast
    subgoal using send_whatsapp_raises by blast
    subgoal using constructed_agent_never_raises by blast
    subgoal using constructed_agent_never_raises by blast
    subgoal using get_messages_list_raises by blast
    subgoal using read_emails_early_raise by blast
    subgoal using read_emails_fetch_raises by blast
    subgoal by (rule read_emails_close_logout)
    done
qed

theorem provider_exceptions_never_escape_witness:
  "smtp_login smtp_bad_login (email_address agent0) (email_password agent0) \<noteq> None \<and>
   returned (send_email smtp_bad_login agent0 ''you@example.com'' ''hi'' ''text'' False) = False \<and>
   client agent_down = Some client_down \<and>
   from_number agent_down = Assigned (Some ''+15551234567'') \<and>
   messages_create client_down ''hi'' (Some ''+15551234567'') ''+15557654321''
     = Inl (LibraryError ''TwilioRestException'') \<and>
   returned (send_sms agent_down ''+15557654321'' ''hi'') = Inr False \<and>
   returned (send_whatsapp agent_down ''+15557654321'' ''hi'') = Inr False \<and>
   returned (get_messages agent_down 10) = [] \<and>
   (\<exists>b. returned (send_sms agent_no_number ''+15557654321'' ''hi'') = Inr b) \<and>
   imap_login mailbox_bad_login (email_address agent0) (email_password agent0) \<noteq> None \<and>
   returned (read_emails Map.empty mailbox_bad_login agent0 10) = [] \<and>
   imap_fetch mailbox_bad_fetch ''2'' = Inl (LibraryError ''FETCH command error'') \<and>
   returned (read_emails Map.empty mailbox_bad_fetch agent0 10) = [summary1] \<and>
   returned (read_emails Map.empty (mailbox\<lparr>imap_close := Some (LibraryError ''CLOSE failed''), imap_logout := None\<rparr>) agent0 10) =
     returned (read_emails Map.empty mailbox agent0 10)"
proof -
  note t = provider_exceptions_never_escape[where sw = smtp_bad_login and self = agent0
      and to = "''you@example.com''" and subject = "''hi''" and body = "''text''"
      and is_html = False and agent = agent_down and phone = "''+15557654321''"
      and message = "''hi''" and count = 10 and env = Map.empty and w = mailbox and limit = 10]
  note t1 = t[THEN conjunct1]
  note t2 = t[THEN conjunct2, THEN conjunct1]
  note t3 = t[THEN conjunct2, THEN conjunct2, THEN conjunct1]
  note t5 = t[THEN conjunct2, THEN conjunct2, THEN conjunct2, THEN conjunct2, THEN conjunct1]
  note t8 = t[THEN conjunct2, THEN conjunct2, THEN conjunct2, THEN conjunct2, THEN conjunct2,
              THEN conjunct2, THEN conjunct2]
  note t4 = provider_exceptions_never_escape[where agent = agent_no_number
      and phone = "''+15557654321''" and message = "''hi''",
      THEN conjunct2, THEN conjunct2, THEN conjunct2, THEN conjunct1]
  note t6 = provider_exceptions_never_escape[where env = Map.empty and w = mailbox_bad_login
      and self = agent0 and limit = 10,
      THEN conjunct2, THEN conjunct2, THEN conjunct2, THEN conjunct2, THEN conjunct2,
      THEN conjunct1]
  note t7 = provider_exceptions_never_escape[where env = Map.empty and w = mailbox_bad_fetch
      and self = agent0 and limit = 10,
      THEN conjunct2, THEN conjunct2, THEN conjunct2, THEN conjunct2, THEN conjunct2,
      THEN conjunct2, THEN conjunct1]
  have l: "smtp_login smtp_bad_login (email_address agent0) (email_password agent0) \<noteq> None"
    by (simp add: eval_defs)
  have c: "client agent_down = Some client_down"
    "from_number agent_down = Assigned (Some ''+15551234567'')"
    "messages_create client_down ''hi'' (Some ''+15551234567'') ''+15557654321''
       = Inl (LibraryError ''TwilioRestException'')"
    "messages_create client_down ''hi'' (Some (''whatsapp:'' @ ''+15551234567'')) (''whatsapp:'' @ ''+15557654321'')
       = Inl (LibraryError ''TwilioRestException'')"
    "messages_list client_down 10 = Inl (LibraryError ''TwilioRestException'')"
    by (simp_all add: eval_defs)
  have p: "py_int (getenv_default Map.empty ''IMAP_PORT'' ''993'') = Some 993"
    by (simp add: eval_defs)
  have il: "imap_login mailbox_bad_login (email_address agent0) (email_password agent0) \<noteq> None"
    by (simp add: eval_defs)
  have f: "\<not> email_unconfigured agent0"
    "imap_connect mailbox_bad_fetch (getenv_default Map.empty ''IMAP_SERVER'' ''imap.gmail.com'') 993 = None"
    "imap_login mailbox_bad_fetch (email_address agent0) (email_password agent0) = None"
    "imap_select mailbox_bad_fetch ''inbox'' = None"
    "imap_search mailbox_bad_fetch = Inr [Some ''1 2'']"
    "first_split [Some ''1 2''] = Inr [''1'', ''2'']"
    "slice_from [''1'', ''2''] (- 10) = [''1''] @ ''2'' # []"
    "first_failure (attempts mailbox_bad_fetch [''1'']) = None"
    "imap_fetch mailbox_bad_fetch ''2'' = Inl (LibraryError ''FETCH command error'')"
    by (simp_all add: eval_defs)
  have sa: "successes (attempts mailbox_bad_fetch [''1'']) = [summary1]"
    by (simp add: eval_defs)
  from t1 l have 1: "returned (send_email smtp_bad_login agent0 ''you@example.com'' ''hi'' ''text'' False) = False"
    by blast
  from t2 c(1-3) have 2: "returned (send_sms agent_down ''+15557654321'' ''hi'') = Inr False"
    by blast
  from t3 c(1,2,4) have 3: "returned (send_whatsapp agent_down ''+15557654321'' ''hi'') = Inr False"
    by blast
  from t5 c(1,5) have 4: "returned (get_messages agent_down 10) = []"
    by blast
  from t4 agent_no_number_def have 5: "\<exists>b. returned (send_sms agent_no_number ''+15557654321'' ''hi'') = Inr b"
    by blast
  from t6 p il have 6: "returned (read_emails Map.empty mailbox_bad_login agent0 10) = []"
    by blast
  from t7 p f have "returned (read_emails Map.empty mailbox_bad_fetch agent0 10) =
      successes (attempts mailbox_bad_fetch [''1''])"
    by blast
  with sa have 7: "returned (read_emails Map.empty mailbox_bad_fetch agent0 10) = [summary1]"
    by simp
  from t8 have 8: "returned (read_emails Map.empty (mailbox\<lparr>imap_close := Some (LibraryError ''CLOSE failed''), imap_logout := None\<rparr>) agent0 10) =
     returned (read_emails Map.empty mailbox agent0 10)"
    by blast
  from l c(1-3) 1 2 3 4 5 il 6 f(9) 7 8 show ?thesis by blast
qed

text \<open>
  C3 as stated fails for \<open>read_emails\<close>: when CLOSE raises after both messages of the
  mailbox were read, the exception is caught and both summaries are returned, not the
  empty list.
\<close>

theorem read_keeps_summaries_when_close_raises:
  "imap_close mailbox_bad_close = Some (LibraryError ''CLOSE failed'') \<and>
   Call IMAP_close \<in> set (events (read_emails Map.empty mailbox_bad_close agent0 10)) \<and>
   Print_exc ''[EMAIL] IMAP error: '' (LibraryError ''CLOSE failed'')
     \<in> set (events (read_emails Map.empty mailbox_bad_close agent0 10)) \<and>
   returned (read_emails Map.empty mailbox_bad_close agent0 10) = [summary1, summary2] \<and>
   returned (read_emails Map.empty mailbox_bad_close agent0 10) \<noteq> []"
  by (simp add: eval_defs)

end
